theory Spec2Isabelle
  imports Complex_Main "HOL-Library.Word"
begin

section \<open>Shared data model of the globe renderers\<close>

text \<open>
  The renderers are React components written in TypeScript. Component state (the
  \<open>useState\<close> cells) is a record that every handler takes and returns updated.
  JavaScript numbers are modelled as \<open>real\<close> where they hold coordinates and colours
  (the idealisation of IEEE doubles: no rounding), as \<open>real\<close> with the rounding of
  every product written out where they hold the zoom factor, and as \<open>int\<close> where they
  hold the integer-valued string hash. A JavaScript string is its sequence of UTF-16 code
  units, which is what \<open>charCodeAt\<close> reads.
\<close>

type_synonym jsstring = "16 word list"

text \<open>An ASCII literal of the source as a JavaScript string.\<close>

definition js :: "string \<Rightarrow> jsstring" where
  "js s = map (\<lambda>c. of_nat (of_char c)) s"

text \<open>
  \<open>interface CountryFeature\<close>: the property bag is optional at every use
  (\<open>country.properties?.ISO_A2\<close>), and so is each property. \<open>ISO_A3\<close> comes through the
  index signature; it is taken to be a string when present. The geometry payload is
  opaque to every function modelled here and is left out. Handlers compare features with
  \<open>===\<close>, which on objects is identity of reference: \<open>oid\<close> is that identity.
\<close>

record Properties =
  ADMIN :: "jsstring option"
  ISO_A2 :: "jsstring option"
  ISO_A3 :: "jsstring option"
  POP_EST :: "real option"
  NAME :: "jsstring option"

record CountryFeature =
  oid :: nat
  properties :: "Properties option"

text \<open>\<open>selectedCountry === country\<close>, where the left side may be \<open>null\<close>.\<close>

definition same_ref :: "CountryFeature option \<Rightarrow> CountryFeature \<Rightarrow> bool" where
  "same_ref cur country = (case cur of None \<Rightarrow> False | Some c \<Rightarrow> oid c = oid country)"

text \<open>
  \<open>a || b\<close> on optional strings: \<open>undefined\<close> and the empty string are falsy, every
  other string is truthy.
\<close>

definition truthy :: "'a list option \<Rightarrow> bool" where
  "truthy v = (case v of None \<Rightarrow> False | Some s \<Rightarrow> s \<noteq> [])"

definition js_or :: "jsstring option \<Rightarrow> jsstring option \<Rightarrow> jsstring option" where
  "js_or a b = (if truthy a then a else b)"

text \<open>\<open>country.properties?.ISO_A2\<close> and \<open>country.properties?.ISO_A3\<close>.\<close>

definition prop_ISO_A2 :: "CountryFeature \<Rightarrow> jsstring option" where
  "prop_ISO_A2 country = (case properties country of None \<Rightarrow> None | Some p \<Rightarrow> ISO_A2 p)"

definition prop_ISO_A3 :: "CountryFeature \<Rightarrow> jsstring option" where
  "prop_ISO_A3 country = (case properties country of None \<Rightarrow> None | Some p \<Rightarrow> ISO_A3 p)"


section \<open>Country colours (src/src/components/AccurateGlobe.tsx)\<close>

definition COUNTRY_COLORS :: "string list" where
  "COUNTRY_COLORS =
    [''#49ac8f'', ''#5fb399'', ''#4a90a4'', ''#6fa86f'', ''#8fb3d9'', ''#7c9a92'',
     ''#a3c4bc'', ''#b8d4be'', ''#90be6d'', ''#43aa8b'', ''#577590'', ''#6d597a'',
     ''#b56576'', ''#e09f3e'', ''#9b5de5'', ''#00bbf9'', ''#fee440'', ''#f15bb5'',
     ''#00f5d4'']"

text \<open>
  \<open>hash << 5\<close>: the operand is converted with ToInt32 (reduced modulo \<open>2^32\<close> and read
  as two's complement), shifted within 32 bits, and the result is again a signed 32-bit
  value.
\<close>

definition shl5 :: "int \<Rightarrow> int" where
  "shl5 h = sint (push_bit 5 (word_of_int h :: 32 word))"

text \<open>
  The loop body \<open>hash = isoCode.charCodeAt(i) + ((hash << 5) - hash)\<close>. Only the shift
  is a 32-bit operation; the subtraction and the addition are ordinary number
  arithmetic, so the hash is not confined to 32 bits.
\<close>

definition hash_step :: "int \<Rightarrow> 16 word \<Rightarrow> int" where
  "hash_step h c = uint c + (shl5 h - h)"

definition hash_code :: "jsstring \<Rightarrow> int" where
  "hash_code isoCode = foldl hash_step 0 isoCode"

text \<open>\<open>country.properties?.ISO_A2 || country.properties?.ISO_A3 || 'XX'\<close>.\<close>

definition isoCode_of :: "CountryFeature \<Rightarrow> jsstring" where
  "isoCode_of country =
     (case js_or (js_or (prop_ISO_A2 country) (prop_ISO_A3 country)) (Some (js ''XX'')) of
        None \<Rightarrow> js ''XX'' | Some s \<Rightarrow> s)"

text \<open>\<open>Math.abs(hash) % COUNTRY_COLORS.length\<close>.\<close>

definition colorIndex :: "jsstring \<Rightarrow> nat" where
  "colorIndex isoCode = nat \<bar>hash_code isoCode\<bar> mod length COUNTRY_COLORS"

text \<open>
  Reading an array at an index: \<open>undefined\<close> (here \<open>None\<close>) outside the array, as
  JavaScript does.
\<close>

definition js_index :: "'a list \<Rightarrow> nat \<Rightarrow> 'a option" where
  "js_index xs i = (if i < length xs then Some (xs ! i) else None)"

definition getCountryColor :: "CountryFeature \<Rightarrow> string option" where
  "getCountryColor country = js_index COUNTRY_COLORS (colorIndex (isoCode_of country))"

section \<open>Loading the country data (both AccurateGlobe files and Projection2DGlobe.tsx)\<close>

text \<open>
  The five state cells that the three map components declare in the same way.
  \<open>error\<close> is \<open>string | null\<close>.
\<close>

record LoaderState =
  countries :: "CountryFeature list"
  selectedCountry :: "CountryFeature option"
  hoveredCountry :: "CountryFeature option"
  isLoading :: bool
  error :: "string option"

text \<open>
  What \<open>fetch\<close> resolves to. \<open>resp_features\<close> stands for
  \<open>feature(await response.json(), topologyData.objects.countries).features\<close>: the
  decoding of the payload is the work of the browser and of topojson-client, so its
  outcome (the feature list, or the error thrown on a malformed payload) is given with
  the response.
\<close>

datatype load_exn = FetchRejected string | HttpError nat | DecodeFailed string

record Response =
  resp_ok :: bool
  resp_status :: nat
  resp_features :: "string + CountryFeature list"

text \<open>
  The body of the \<open>try\<close> block of \<open>loadCountryData\<close>, started after
  \<open>setIsLoading(true); setError(null)\<close>: \<open>Inl\<close> is the exception that leaves the block,
  \<open>Inr\<close> the state when the block runs to its end.
\<close>

definition loadCountryData_try ::
  "string + Response \<Rightarrow> 'a LoaderState_scheme \<Rightarrow> load_exn + 'a LoaderState_scheme" where
  "loadCountryData_try fetched st =
     (case fetched of
        Inl e \<Rightarrow> Inl (FetchRejected e)
      | Inr response \<Rightarrow>
          if \<not> resp_ok response then Inl (HttpError (resp_status response))
          else (case resp_features response of
                  Inl e \<Rightarrow> Inl (DecodeFailed e)
                | Inr features \<Rightarrow>
                    Inr (st\<lparr>countries :=
                              filter (\<lambda>feature. prop_ISO_A2 feature \<noteq> Some (js ''AQ'')) features,
                            isLoading := False\<rparr>)))"

definition loadCountryData ::
  "string + Response \<Rightarrow> 'a LoaderState_scheme \<Rightarrow> 'a LoaderState_scheme" where
  "loadCountryData fetched st =
     (let st1 = st\<lparr>isLoading := True, error := None\<rparr> in
      case loadCountryData_try fetched st1 of
        Inr st2 \<Rightarrow> st2
      | Inl err \<Rightarrow>
          st1\<lparr>error := Some ''Failed to load country data. Please try again.'',
               isLoading := False\<rparr>)"

text \<open>
  What a map component returns from its render function: the loading placeholder, the
  error placeholder with its text, or the visualization fed with the countries.
\<close>

datatype view = LoadingPlaceholder | ErrorPlaceholder string | Visualization "CountryFeature list"

definition render :: "'a LoaderState_scheme \<Rightarrow> view" where
  "render st =
     (if isLoading st then LoadingPlaceholder
      else if truthy (error st)
           then (case error st of Some e \<Rightarrow> ErrorPlaceholder e
                                | None \<Rightarrow> Visualization (countries st))
      else Visualization (countries st))"

section \<open>Projection2DGlobe.tsx\<close>

record ProjectionConfig =
  pc_rotate :: "real \<times> real \<times> real"
  pc_scale :: real
  pc_translate :: "real \<times> real"

record P2D_State = LoaderState +
  projectionConfig :: ProjectionConfig
  isRotating :: bool
  zoom :: real

text \<open>The initial values of the \<open>useState\<close> cells.\<close>

definition P2D_initialConfig :: ProjectionConfig where
  "P2D_initialConfig = \<lparr>pc_rotate = (0, 0, 0), pc_scale = 200, pc_translate = (400, 300)\<rparr>"

definition P2D_initial :: P2D_State where
  "P2D_initial =
     \<lparr>countries = [], selectedCountry = None, hoveredCountry = None, isLoading = True,
      error = None, projectionConfig = P2D_initialConfig, isRotating = False, zoom = 1\<rparr>"

definition P2D_handleCountryClick :: "CountryFeature \<Rightarrow> P2D_State \<Rightarrow> P2D_State" where
  "P2D_handleCountryClick country st = st\<lparr>selectedCountry := Some country, isRotating := False\<rparr>"

definition P2D_handleCountryHover :: "CountryFeature option \<Rightarrow> P2D_State \<Rightarrow> P2D_State" where
  "P2D_handleCountryHover country st = st\<lparr>hoveredCountry := country\<rparr>"

text \<open>The button \<open>onClick={() => setIsRotating(!isRotating)}\<close>.\<close>

definition P2D_toggleRotation :: "P2D_State \<Rightarrow> P2D_State" where
  "P2D_toggleRotation st = st\<lparr>isRotating := \<not> isRotating st\<rparr>"

text \<open>
  The zoom factor is computed in double arithmetic, and the claim about it is an exact
  equality, so here the rounding is modelled. A double is the real number it denotes.
  \<open>round_double\<close> is the rounding of IEEE 754 binary64: to the nearest number with a
  significand of 53 bits, ties to the even significand. The exponent is not bounded in
  the model; after the clamp to \<open>[0.5, 3]\<close> that makes no difference, since a product
  that overflows is clamped to 3 and one that underflows to 0.5 either way.
\<close>

definition roundTiesToEven :: "real \<Rightarrow> int" where
  "roundTiesToEven y =
     (let f = \<lfloor>y\<rfloor>; r = y - of_int f
      in if r < 1 / 2 then f else if r > 1 / 2 then f + 1 else if even f then f else f + 1)"

definition round_double :: "real \<Rightarrow> real" where
  "round_double x =
     (if x = 0 then 0
      else let e = \<lfloor>log 2 \<bar>x\<bar>\<rfloor> - 52
           in of_int (roundTiesToEven (x / 2 powr of_int e)) * 2 powr of_int e)"

text \<open>The product \<open>a * b\<close> of two doubles, and the literals \<open>0.9\<close> and \<open>1.1\<close>.\<close>

definition fmul :: "real \<Rightarrow> real \<Rightarrow> real" where
  "fmul a b = round_double (a * b)"

definition lit_0_9 :: real where
  "lit_0_9 = round_double (9 / 10)"

definition lit_1_1 :: real where
  "lit_1_1 = round_double (11 / 10)"

text \<open>The updater \<open>prev => Math.max(0.5, Math.min(3, prev * delta))\<close> of \<open>handleWheel\<close>.\<close>

definition zoomUpdater :: "real \<Rightarrow> real \<Rightarrow> real" where
  "zoomUpdater delta prev = max (1 / 2) (min 3 (fmul prev delta))"

definition handleWheel :: "real \<Rightarrow> P2D_State \<Rightarrow> P2D_State" where
  "handleWheel deltaY st =
     (let delta = (if deltaY > 0 then lit_0_9 else lit_1_1)
      in st\<lparr>zoom := zoomUpdater delta (zoom st)\<rparr>)"

text \<open>The \<open>onClick\<close> of the Reset View button.\<close>

definition resetView :: "P2D_State \<Rightarrow> P2D_State" where
  "resetView st =
     st\<lparr>projectionConfig := \<lparr>pc_rotate = (0, 0, 0), pc_scale = 200, pc_translate = (400, 300)\<rparr>,
        zoom := 1\<rparr>"

record GeoStyle =
  fill :: string
  stroke :: string
  strokeWidth :: real

definition getGeographyStyle :: "P2D_State \<Rightarrow> CountryFeature \<Rightarrow> GeoStyle \<times> GeoStyle" where
  "getGeographyStyle st country =
     (let isSelected = same_ref (selectedCountry st) country;
          isHovered = same_ref (hoveredCountry st) country
      in (\<lparr>fill = (if isSelected then ''#5fb399'' else if isHovered then ''#66c0a8'' else ''#49ac8f''),
           stroke = ''#08070e'',
           strokeWidth = (if isSelected then 3 / 2 else if isHovered then 6 / 5 else 4 / 5)\<rparr>,
          \<lparr>fill = (if isSelected then ''#5fb399'' else ''#66c0a8''),
           stroke = ''#08070e'',
           strokeWidth = 3 / 2\<rparr>))"

text \<open>The fill of a geography that the pointer is not over: the \<open>default\<close> style.\<close>

definition P2D_fill :: "P2D_State \<Rightarrow> CountryFeature \<Rightarrow> string" where
  "P2D_fill st country = fill (fst (getGeographyStyle st country))"

section \<open>The two AccurateGlobe.tsx files\<close>

text \<open>
  There are two files of this name: src/components/AccurateGlobe.tsx, which has no
  palette (its functions carry the prefix \<open>AG\<close> here), and
  src/src/components/AccurateGlobe.tsx, which declares \<open>COUNTRY_COLORS\<close> and
  \<open>getCountryColor\<close> (prefix \<open>SAG\<close>). Their state cells are the same.

  The globe behind the ref \<open>globeEl\<close>: the \<open>autoRotate\<close> and \<open>autoRotateSpeed\<close> fields of
  its controls and the point of view (lat, lng, altitude) last requested. The ref is
  empty while the globe is not mounted.
\<close>

record GlobeHandle =
  autoRotate :: bool
  autoRotateSpeed :: real
  pointOfView :: "real \<times> real \<times> real"

record AG_State = LoaderState +
  globeEl :: "GlobeHandle option"

text \<open>The initial values of the \<open>useState\<close> cells and of the ref, the same in both files.\<close>

definition AG_initial :: AG_State where
  "AG_initial =
     \<lparr>countries = [], selectedCountry = None, hoveredCountry = None, isLoading = True,
      error = None, globeEl = None\<rparr>"

text \<open>
  The effect that initialises the controls in src/components/AccurateGlobe.tsx (the
  camera move it schedules with \<open>setTimeout\<close> is applied at once). It returns at once
  when the ref is empty.
\<close>

definition AG_initControls :: "AG_State \<Rightarrow> AG_State" where
  "AG_initControls st =
     (case globeEl st of
        None \<Rightarrow> st
      | Some globe \<Rightarrow>
          st\<lparr>globeEl := Some (globe\<lparr>autoRotate := True, autoRotateSpeed := 1 / 2,
                                      pointOfView := (20, 0, 5 / 2)\<rparr>)\<rparr>)"


text \<open>\<open>getPolygonCapColor\<close> of src/components/AccurateGlobe.tsx.\<close>

definition AG_getPolygonCapColor :: "AG_State \<Rightarrow> CountryFeature \<Rightarrow> string" where
  "AG_getPolygonCapColor st country =
     (let baseColor = ''#49ac8f''; selectedColor = ''#5fb399''; hoveredColor = ''#66c0a8''
      in if same_ref (selectedCountry st) country then selectedColor
         else if same_ref (hoveredCountry st) country then hoveredColor
         else baseColor)"



text \<open>
  \<open>getPolygonCapColor\<close> of src/src/components/AccurateGlobe.tsx; the result is optional
  because the palette lookup of \<open>getCountryColor\<close> is.
\<close>

definition SAG_getPolygonCapColor :: "AG_State \<Rightarrow> CountryFeature \<Rightarrow> string option" where
  "SAG_getPolygonCapColor st country =
     (if same_ref (selectedCountry st) country then Some ''#ffd700''
      else if same_ref (hoveredCountry st) country then Some ''#ffffff''
      else getCountryColor country)"



text \<open>
  React fills the ref when the \<open>Globe\<close> element is mounted, which is when the render
  function returns the visualization, and empties it otherwise. The handle is the one
  the library hands out; the component does not choose it.
\<close>

definition AG_attachRef :: "GlobeHandle \<Rightarrow> AG_State \<Rightarrow> AG_State" where
  "AG_attachRef globe st =
     (case render st of
        Visualization cs \<Rightarrow> st\<lparr>globeEl := Some globe\<rparr>
      | LoadingPlaceholder \<Rightarrow> st\<lparr>globeEl := None\<rparr>
      | ErrorPlaceholder e \<Rightarrow> st\<lparr>globeEl := None\<rparr>)"




section \<open>Procedural geometry (WebGPUGlobe.tsx and LowPolyGlobe.tsx)\<close>

text \<open>
  A \<open>THREE.Vector3\<close> is a triple of coordinates. \<open>length\<close>, \<open>multiplyScalar\<close> and
  \<open>normalize\<close> are the methods of three.js that the loops call: \<open>normalize\<close> is
  \<open>divideScalar(this.length() || 1)\<close>, so the zero vector is left as it is.
\<close>

type_synonym vec3 = "real \<times> real \<times> real"

fun vlength :: "vec3 \<Rightarrow> real" where
  "vlength (x, y, z) = sqrt (x * x + y * y + z * z)"

fun multiplyScalar :: "real \<Rightarrow> vec3 \<Rightarrow> vec3" where
  "multiplyScalar s (x, y, z) = (x * s, y * s, z * s)"

definition normalize :: "vec3 \<Rightarrow> vec3" where
  "normalize v = multiplyScalar (1 / (if vlength v = 0 then 1 else vlength v)) v"

text \<open>
  The displacement loop of WebGPUGlobe.tsx on one vertex of
  \<open>SphereGeometry(1, \<dots>)\<close>: three octaves, their sum scaled by 0.03.
\<close>

fun WG_displacement :: "vec3 \<Rightarrow> real" where
  "WG_displacement (x, y, z) =
     (let noise1 = sin (x * 8) * cos (y * 8) * sin (z * 8);
          noise2 = sin (x * 16) * cos (y * 16) * sin (z * 16) * (1 / 2);
          noise3 = sin (x * 4) * cos (y * 4) * sin (z * 4) * 2
      in (noise1 + noise2 + noise3) * (3 / 100))"

definition WG_displace :: "vec3 \<Rightarrow> vec3" where
  "WG_displace vertex = multiplyScalar (1 + WG_displacement vertex) (normalize vertex)"

text \<open>
  The colour loop of WebGPUGlobe.tsx on one displaced vertex: ocean by default, land
  above the elevation 0.01, and inside the land branch snow above the latitude 0.8.
\<close>

fun WG_color :: "vec3 \<Rightarrow> real \<times> real \<times> real" where
  "WG_color (x, y, z) =
     (let latitude = \<bar>y\<bar>;
          elevation = vlength (x, y, z) - 1
      in if elevation > 1 / 100
         then (if latitude > 8 / 10 then (9 / 10, 9 / 10, 1)
               else (3 / 10 + elevation * 2, 4 / 10 + elevation * (3 / 2), 2 / 10 + elevation * (1 / 2)))
         else (1 / 10, 3 / 10, 6 / 10))"

definition snow :: "real \<times> real \<times> real" where
  "snow = (9 / 10, 9 / 10, 1)"

definition ocean :: "real \<times> real \<times> real" where
  "ocean = (1 / 10, 3 / 10, 6 / 10)"

text \<open>
  The geometry memo of WebGPUGlobe.tsx on the vertex list of the sphere: the positions
  after the first loop and the colours that the second loop computes from them.
\<close>

definition WG_geometry :: "vec3 list \<Rightarrow> vec3 list \<times> (real \<times> real \<times> real) list" where
  "WG_geometry positions =
     (let displaced = map WG_displace positions in (displaced, map WG_color displaced))"

text \<open>The arguments of \<open>new THREE.SphereGeometry(1, isWebGPU ? 128 : 64, isWebGPU ? 64 : 32)\<close>.\<close>

definition sphereArgs :: "bool \<Rightarrow> real \<times> nat \<times> nat" where
  "sphereArgs isWebGPU = (1, if isWebGPU then 128 else 64, if isWebGPU then 64 else 32)"

text \<open>
  The displacement loop of LowPolyGlobe.tsx on one vertex of \<open>SphereGeometry(2, 12, 8)\<close>.
\<close>

definition LP_baseRadius :: real where
  "LP_baseRadius = 2"

fun LP_displacements :: "vec3 \<Rightarrow> real \<times> real" where
  "LP_displacements (x, y, z) =
     (let noise = sin (x * 4) * cos (y * 4) * sin (z * 4);
          displacement = noise * (8 / 100);
          largeScaleNoise = sin (x * 2) * sin (y * 2);
          largeDisplacement = largeScaleNoise * (12 / 100)
      in (displacement, largeDisplacement))"

definition LP_displace :: "vec3 \<Rightarrow> vec3" where
  "LP_displace vertex =
     (let (displacement, largeDisplacement) = LP_displacements vertex
      in multiplyScalar (1 + displacement + largeDisplacement) (normalize vertex))"

section \<open>Capability detection (WebGPUGlobe.tsx)\<close>

text \<open>
  What the browser answers to the probe of \<open>isWebGPUSupported\<close>: the key \<open>gpu\<close> is not
  in \<open>navigator\<close>; it is there with a falsy value; \<open>requestAdapter\<close> throws or its promise
  rejects; or it resolves, to an adapter (\<open>True\<close>) or to \<open>null\<close> (\<open>False\<close>).
\<close>

datatype gpu_probe =
  GpuKeyMissing
| GpuValueFalsy
| RequestAdapterThrows string
| RequestAdapterRejects string
| RequestAdapterResolves bool

definition isWebGPUSupported :: "gpu_probe \<Rightarrow> string + bool" where
  "isWebGPUSupported nav =
     (case nav of
        GpuKeyMissing \<Rightarrow> Inr False
      | GpuValueFalsy \<Rightarrow> Inr False
      | RequestAdapterThrows e \<Rightarrow> Inl e
      | RequestAdapterRejects e \<Rightarrow> Inl e
      | RequestAdapterResolves adapter \<Rightarrow> Inr adapter)"

text \<open>
  The environment of \<open>checkWebGPU\<close>: the probe, and whether the first call of
  \<open>measureFPS\<close> (which reads \<open>performance.now\<close> and calls \<open>requestAnimationFrame\<close>)
  throws.
\<close>

record Browser =
  probe :: gpu_probe
  measureFPS_throws :: "string option"

record WG_State =
  isWebGPU :: "bool option"
  WG_isLoading :: bool
  fpsMonitor :: bool

definition WG_initial :: WG_State where
  "WG_initial = \<lparr>isWebGPU = None, WG_isLoading = True, fpsMonitor = False\<rparr>"

text \<open>
  A block that can throw returns the state it reached together with the exception that
  left it, if any: state updates made before a throw stay.
\<close>

type_synonym 'st completion = "'st \<times> string option"

definition checkWebGPU_try :: "Browser \<Rightarrow> WG_State \<Rightarrow> WG_State completion" where
  "checkWebGPU_try env st =
     (case isWebGPUSupported (probe env) of
        Inl e \<Rightarrow> (st, Some e)
      | Inr supported \<Rightarrow>
          (let st1 = st\<lparr>isWebGPU := Some supported\<rparr> in
           if supported
           then (case measureFPS_throws env of
                   Some e \<Rightarrow> (st1, Some e)
                 | None \<Rightarrow> (st1\<lparr>fpsMonitor := True\<rparr>, None))
           else (st1, None)))"

text \<open>
  \<open>checkWebGPU\<close>: the \<open>catch\<close> clause handles whatever left the \<open>try\<close> block, and the
  \<open>finally\<close> clause runs on both paths; the exception of the result is the one that
  leaves the whole function.
\<close>

definition checkWebGPU :: "Browser \<Rightarrow> WG_State \<Rightarrow> WG_State completion" where
  "checkWebGPU env st =
     (let (st1, thrown) = checkWebGPU_try env st;
          (st2, pending) = (case thrown of
                              None \<Rightarrow> (st1, None)
                            | Some e \<Rightarrow> (st1\<lparr>isWebGPU := Some False\<rparr>, None))
      in (st2\<lparr>WG_isLoading := False\<rparr>, pending))"

text \<open>The property \<open>isWebGPU={isWebGPU || false}\<close> passed to \<open>Globe\<close>.\<close>

definition tier :: "WG_State \<Rightarrow> bool" where
  "tier st = (case isWebGPU st of None \<Rightarrow> False | Some b \<Rightarrow> b)"

definition probe_fails :: "gpu_probe \<Rightarrow> bool" where
  "probe_fails nav =
     (case nav of
        GpuKeyMissing \<Rightarrow> True
      | GpuValueFalsy \<Rightarrow> True
      | RequestAdapterThrows e \<Rightarrow> True
      | RequestAdapterRejects e \<Rightarrow> True
      | RequestAdapterResolves adapter \<Rightarrow> \<not> adapter)"

section \<open>Concrete inputs\<close>

text \<open>
  Three features as a dataset may hold them: one with all its properties, Antarctica,
  and one without a property bag.
\<close>

definition france :: CountryFeature where
  "france = \<lparr>oid = 1, properties = Some \<lparr>ADMIN = Some (js ''France''), ISO_A2 = Some (js ''FR''),
       ISO_A3 = Some (js ''FRA''), POP_EST = Some 67000000, NAME = Some (js ''France'')\<rparr>\<rparr>"

definition unnamed_feature :: CountryFeature where
  "unnamed_feature = \<lparr>oid = 2, properties = None\<rparr>"

definition antarctica :: CountryFeature where
  "antarctica = \<lparr>oid = 3, properties = Some \<lparr>ADMIN = Some (js ''Antarctica''),
       ISO_A2 = Some (js ''AQ''), ISO_A3 = Some (js ''ATA''), POP_EST = Some 4400,
       NAME = Some (js ''Antarctica'')\<rparr>\<rparr>"

text \<open>A successful response with these features, and a response with the status 404.\<close>

definition world_atlas :: Response where
  "world_atlas = \<lparr>resp_ok = True, resp_status = 200,
                   resp_features = Inr [france, antarctica, unnamed_feature]\<rparr>"

definition not_found :: Response where
  "not_found = \<lparr>resp_ok = False, resp_status = 404, resp_features = Inl ''Unexpected token''\<rparr>"

text \<open>
  The 2D projection after its data has loaded, and the same after twelve wheel notches
  inwards.
\<close>

definition loaded_map :: P2D_State where
  "loaded_map = loadCountryData (Inr world_atlas) P2D_initial"

definition zoomed_in :: P2D_State where
  "zoomed_in = (handleWheel (- 1) ^^ 12) loaded_map"

text \<open>The 2D projection with its data loaded and auto-rotation switched on.\<close>

definition rotating_map :: P2D_State where
  "rotating_map = P2D_toggleRotation loaded_map"

text \<open>
  A handle as the library hands it out, not auto-rotating, and the AccurateGlobe whose
  data has loaded and whose globe is mounted with it.
\<close>

definition default_globe :: GlobeHandle where
  "default_globe = \<lparr>autoRotate = False, autoRotateSpeed = 2, pointOfView = (0, 0, 5 / 2)\<rparr>"

definition loaded_globe :: AG_State where
  "loaded_globe =
     AG_attachRef default_globe (loadCountryData (Inr world_atlas) (AG_initControls AG_initial))"

section \<open>Theorems\<close>

subsection \<open>The concrete inputs\<close>

lemma loaded_map_eq:
  "loaded_map = P2D_initial\<lparr>countries := [france, unnamed_feature], isLoading := False\<rparr>"
  by (simp add: loaded_map_def loadCountryData_def loadCountryData_try_def world_atlas_def
      Let_def france_def antarctica_def unnamed_feature_def prop_ISO_A2_def js_def P2D_initial_def)

lemma render_loaded_map: "render loaded_map = Visualization [france, unnamed_feature]"
  by (simp add: loaded_map_eq render_def truthy_def P2D_initial_def)

lemma rotating_map_rotates: "isRotating rotating_map"
  by (simp add: rotating_map_def P2D_toggleRotation_def loaded_map_eq P2D_initial_def)



lemma loaded_globe_eq:
  "loaded_globe = AG_initial\<lparr>countries := [france, unnamed_feature], isLoading := False,
                             globeEl := Some default_globe\<rparr>"
  by (simp add: loaded_globe_def AG_initControls_def AG_attachRef_def render_def truthy_def
      loadCountryData_def loadCountryData_try_def world_atlas_def Let_def france_def
      antarctica_def unnamed_feature_def prop_ISO_A2_def js_def AG_initial_def)

subsection \<open>The palette index\<close>

lemma length_COUNTRY_COLORS: "length COUNTRY_COLORS = 19"
  by (simp add: COUNTRY_COLORS_def)

lemma colorIndex_less: "colorIndex s < 19"
  by (simp add: colorIndex_def length_COUNTRY_COLORS)

text \<open>
  The hash stays an integer of moderate size: each step adds less than \<open>2^32\<close> to its
  magnitude. Below \<open>2^53\<close> every integer is a double, so on every string shorter than
  \<open>2^21\<close> code units the arithmetic of the source is exact and is the integer
  arithmetic of \<open>hash_step\<close>.
\<close>

lemma shl5_bound: "\<bar>shl5 h\<bar> \<le> 2 ^ 31"
  unfolding shl5_def
  using sint_range_size[of "push_bit 5 (word_of_int h :: 32 word)"]
  by (simp add: word_size abs_le_iff)

lemma hash_step_bound: "\<bar>hash_step h c\<bar> \<le> \<bar>h\<bar> + 2 ^ 32"
proof -
  have c: "uint c < 65536" using uint_bounded[of c] by simp
  have s: "\<bar>shl5 h\<bar> \<le> 2147483648" using shl5_bound[of h] by simp
  have p: "(2::int) ^ 32 = 4294967296" by simp
  have "0 \<le> uint c" by simp
  with c s show ?thesis unfolding hash_step_def p by linarith
qed

lemma foldl_hash_bound: "\<bar>foldl hash_step h s\<bar> \<le> \<bar>h\<bar> + int (length s) * 2 ^ 32"
proof (induction s arbitrary: h)
  case Nil
  then show ?case by simp
next
  case (Cons c s)
  have "\<bar>foldl hash_step (hash_step h c) s\<bar> \<le> \<bar>hash_step h c\<bar> + int (length s) * 2 ^ 32"
    by (rule Cons.IH)
  also have "\<dots> \<le> (\<bar>h\<bar> + 2 ^ 32) + int (length s) * 2 ^ 32"
    using hash_step_bound[of h c] by simp
  finally show ?case by (simp add: algebra_simps)
qed

text \<open>
  Claim C10. The palette index computed by \<open>getCountryColor\<close> lies in \<open>[0, 19)\<close> for
  every country feature, so the function returns one of the 19 palette colours and
  never \<open>undefined\<close>; a feature with neither \<open>ISO_A2\<close> nor \<open>ISO_A3\<close> (or with no
  property bag at all) is hashed under the code \<open>XX\<close>.
\<close>

theorem getCountryColor_in_palette:
  "colorIndex (isoCode_of country) < 19
   \<and> (\<exists>c. getCountryColor country = Some c \<and> c \<in> set COUNTRY_COLORS)
   \<and> (\<not> truthy (prop_ISO_A2 country) \<and> \<not> truthy (prop_ISO_A3 country)
        \<longrightarrow> isoCode_of country = js ''XX'')"
proof -
  have idx: "colorIndex (isoCode_of country) < length COUNTRY_COLORS"
    by (simp add: colorIndex_less length_COUNTRY_COLORS)
  then have "getCountryColor country = Some (COUNTRY_COLORS ! colorIndex (isoCode_of country))"
    by (simp add: getCountryColor_def js_index_def)
  moreover have "COUNTRY_COLORS ! colorIndex (isoCode_of country) \<in> set COUNTRY_COLORS"
    using idx by (rule nth_mem)
  moreover have "\<not> truthy (prop_ISO_A2 country) \<and> \<not> truthy (prop_ISO_A3 country)
        \<longrightarrow> isoCode_of country = js ''XX''"
    by (simp add: isoCode_of_def js_or_def truthy_def)
  ultimately show ?thesis using colorIndex_less by blast
qed

theorem getCountryColor_in_palette_witness:
  "colorIndex (isoCode_of unnamed_feature) < 19
   \<and> getCountryColor unnamed_feature = Some ''#8fb3d9''
   \<and> \<not> truthy (prop_ISO_A2 unnamed_feature) \<and> \<not> truthy (prop_ISO_A3 unnamed_feature)
   \<and> isoCode_of unnamed_feature = js ''XX''"
  using getCountryColor_in_palette [of unnamed_feature]
  by (simp add: getCountryColor_def js_index_def colorIndex_def isoCode_of_def js_or_def
      truthy_def prop_ISO_A2_def prop_ISO_A3_def hash_code_def js_def hash_step_def shl5_def
      COUNTRY_COLORS_def unnamed_feature_def)

subsection \<open>Reset View\<close>

text \<open>
  Claim C1, as stated: the reset returns rotation, zoom, hovered feature and selected
  feature to their initial values. It fails on the selected feature: after a click on a
  country of the loaded map, Reset View leaves that country selected, while initially
  no country is.
\<close>

theorem resetView_keeps_selection:
  "selectedCountry (P2D_handleCountryClick france loaded_map) = Some france
   \<and> selectedCountry (resetView (P2D_handleCountryClick france loaded_map)) = Some france
   \<and> selectedCountry (resetView (P2D_handleCountryClick france loaded_map))
       \<noteq> selectedCountry P2D_initial"
  by (simp add: resetView_def P2D_handleCountryClick_def P2D_initial_def)

text \<open>
  Claim C1, amended. For every state, Reset View returns the projection configuration
  (rotation \<open>(0, 0, 0)\<close>, scale, translation) and the zoom factor to their initial
  values, and leaves the hovered feature, the selected feature and the auto-rotate flag
  as they are.
\<close>

theorem resetView_effect:
  "projectionConfig (resetView st) = projectionConfig P2D_initial
   \<and> pc_rotate (projectionConfig (resetView st)) = (0, 0, 0)
   \<and> zoom (resetView st) = zoom P2D_initial
   \<and> zoom (resetView st) = 1
   \<and> hoveredCountry (resetView st) = hoveredCountry st
   \<and> selectedCountry (resetView st) = selectedCountry st
   \<and> isRotating (resetView st) = isRotating st"
  by (simp add: resetView_def P2D_initial_def P2D_initialConfig_def)

subsection \<open>Selecting a country\<close>







subsection \<open>Fill colours\<close>

lemma getCountryColor_france: "getCountryColor france = Some ''#577590''"
  by (simp add: getCountryColor_def js_index_def colorIndex_def isoCode_of_def js_or_def
      truthy_def prop_ISO_A2_def prop_ISO_A3_def hash_code_def js_def hash_step_def shl5_def
      COUNTRY_COLORS_def france_def)

text \<open>
  Claim C5, as stated: in every renderer the fill of a feature that is neither selected
  nor hovered is the palette colour of the hash of its ISO code. It fails in
  Projection2DGlobe: France, neither selected nor hovered, is filled with the fixed
  green, while the palette colour of \<open>FR\<close> is another one.
\<close>

theorem fill_not_from_hash:
  "\<not> same_ref (selectedCountry loaded_map) france
   \<and> \<not> same_ref (hoveredCountry loaded_map) france
   \<and> P2D_fill loaded_map france = ''#49ac8f''
   \<and> js_index COUNTRY_COLORS (colorIndex (isoCode_of france)) = Some ''#577590''"
  using getCountryColor_france
  by (simp add: getCountryColor_def P2D_fill_def getGeographyStyle_def same_ref_def
      loaded_map_eq P2D_initial_def)

text \<open>
  Claim C5, amended. For a feature that is neither selected nor hovered: in
  src/src/components/AccurateGlobe.tsx the cap colour is the palette entry at the index
  that the string hash of the feature's ISO code gives, whatever else the state holds;
  in src/components/AccurateGlobe.tsx and in Projection2DGlobe.tsx it is the fixed colour
  \<open>#49ac8f\<close>, the same for every feature.
\<close>

theorem base_fill_colour:
  "(\<not> same_ref (selectedCountry s) country \<and> \<not> same_ref (hoveredCountry s) country
      \<longrightarrow> SAG_getPolygonCapColor s country
            = Some (COUNTRY_COLORS ! colorIndex (isoCode_of country)))
   \<and> (\<not> same_ref (selectedCountry g) country \<and> \<not> same_ref (hoveredCountry g) country
      \<longrightarrow> AG_getPolygonCapColor g country = ''#49ac8f'')
   \<and> (\<not> same_ref (selectedCountry p) country \<and> \<not> same_ref (hoveredCountry p) country
      \<longrightarrow> P2D_fill p country = ''#49ac8f'')"
  by (simp add: SAG_getPolygonCapColor_def AG_getPolygonCapColor_def P2D_fill_def
      getGeographyStyle_def getCountryColor_def js_index_def colorIndex_less
      length_COUNTRY_COLORS Let_def)

theorem base_fill_colour_witness:
  "\<not> same_ref (selectedCountry loaded_globe) france
   \<and> \<not> same_ref (hoveredCountry loaded_globe) france
   \<and> \<not> same_ref (selectedCountry loaded_map) france
   \<and> \<not> same_ref (hoveredCountry loaded_map) france
   \<and> SAG_getPolygonCapColor loaded_globe france = Some (COUNTRY_COLORS ! colorIndex (isoCode_of france))
   \<and> AG_getPolygonCapColor loaded_globe france = ''#49ac8f''
   \<and> P2D_fill loaded_map france = ''#49ac8f''"
  using base_fill_colour [of loaded_globe france loaded_globe loaded_map]
  by (simp add: same_ref_def loaded_globe_eq AG_initial_def loaded_map_eq P2D_initial_def)

subsection \<open>Zoom\<close>

text \<open>
  Rounding to a double, evaluated: in each binade the significand is the rounded
  multiple of the unit in the last place.
\<close>

lemma round_double_binade:
  assumes "2 powr of_int k \<le> \<bar>x\<bar>" "\<bar>x\<bar> < 2 powr of_int (k + 1)"
  shows "round_double x
         = of_int (roundTiesToEven (x / 2 powr of_int (k - 52))) * 2 powr of_int (k - 52)"
proof -
  have "0 < (2 :: real) powr of_int k" by simp
  with assms(1) have pos: "0 < \<bar>x\<bar>" by linarith
  have "\<lfloor>log 2 \<bar>x\<bar>\<rfloor> = k"
    using assms pos by (simp add: floor_log_eq_powr_iff)
  moreover have "x \<noteq> 0" using pos by simp
  ultimately show ?thesis by (simp add: round_double_def Let_def)
qed

lemma round_double_half_1:
  assumes "1 / 2 \<le> \<bar>x\<bar>" "\<bar>x\<bar> < 1"
  shows "round_double x = of_int (roundTiesToEven (x * 9007199254740992)) / 9007199254740992"
proof -
  have p: "2 powr of_int (- 1 - 52) = (1 / 9007199254740992 :: real)"
    by (simp add: powr_minus_divide)
  have q: "2 powr of_int (- 1) = (1 / 2 :: real)"
    by (simp add: powr_minus_divide)
  show ?thesis
    using round_double_binade [of "- 1" x] assms unfolding p q by simp
qed

lemma round_double_1_2:
  assumes "1 \<le> \<bar>x\<bar>" "\<bar>x\<bar> < 2"
  shows "round_double x = of_int (roundTiesToEven (x * 4503599627370496)) / 4503599627370496"
proof -
  have p: "2 powr of_int (0 - 52) = (1 / 4503599627370496 :: real)"
    by (simp add: powr_minus_divide)
  show ?thesis
    using round_double_binade [of 0 x] assms unfolding p by simp
qed

lemma round_double_2_4:
  assumes "2 \<le> \<bar>x\<bar>" "\<bar>x\<bar> < 4"
  shows "round_double x = of_int (roundTiesToEven (x * 2251799813685248)) / 2251799813685248"
proof -
  have p: "2 powr of_int (1 - 52) = (1 / 2251799813685248 :: real)"
    by (simp add: powr_minus_divide)
  show ?thesis
    using round_double_binade [of 1 x] assms unfolding p by simp
qed

lemmas double_eval =
  round_double_half_1 round_double_1_2 round_double_2_4 roundTiesToEven_def Let_def fmul_def

lemma lit_0_9_eq: "lit_0_9 = 8106479329266893 / 9007199254740992"
  by (simp add: lit_0_9_def double_eval)

lemma lit_1_1_eq: "lit_1_1 = 2476979795053773 / 2251799813685248"
  by (simp add: lit_1_1_def double_eval)

lemma zoom_in_3: "zoom ((handleWheel (- 1) ^^ 3) loaded_map) = 1498572776007533 / 1125899906842624"
  by (simp add: loaded_map_eq eval_nat_numeral handleWheel_def zoomUpdater_def
      P2D_initial_def lit_1_1_eq double_eval)

lemma zoom_zoomed_in: "zoom zoomed_in = 3"
  by (simp add: zoomed_in_def loaded_map_eq eval_nat_numeral handleWheel_def zoomUpdater_def
      P2D_initial_def lit_1_1_eq double_eval)

text \<open>
  Claim C6, as stated: for all factors \<open>f1\<close>, \<open>f2\<close> and every zoom \<open>z\<close> in
  \<open>[0.5, 3]\<close>, zooming by \<open>f1\<close> and then by \<open>f2\<close> gives the zoom of one step by
  \<open>f1 * f2\<close>. It fails at the upper bound with the two factors of the wheel: from zoom
  3, reached by twelve notches in, one more notch in (clipped at 3) and one notch out
  give the double 2.7, while one step by the double product of 1.1 and 0.9 gives the
  double 2.97.
\<close>

theorem zoom_composition_fails:
  "zoom zoomed_in = 3
   \<and> zoom (handleWheel 1 (handleWheel (- 1) zoomed_in)) = 3039929748475085 / 1125899906842624
   \<and> zoomUpdater lit_0_9 (zoomUpdater lit_1_1 3) = 3039929748475085 / 1125899906842624
   \<and> zoomUpdater (fmul lit_1_1 lit_0_9) 3 = 6687845446645187 / 2251799813685248
   \<and> zoomUpdater lit_0_9 (zoomUpdater lit_1_1 3) \<noteq> zoomUpdater (fmul lit_1_1 lit_0_9) 3"
  by (simp add: zoom_zoomed_in handleWheel_def zoomUpdater_def lit_0_9_eq lit_1_1_eq double_eval)

text \<open>
  It fails inside the range as well, by rounding: from the zoom after three notches in,
  1.3310000000000004, a notch in and a notch out give 1.3176900000000007, and one step
  by the product gives 1.3176900000000005.
\<close>

lemma zoom_composition_rounds:
  "zoom ((handleWheel (- 1) ^^ 3) loaded_map) = 1498572776007533 / 1125899906842624
   \<and> zoomUpdater lit_1_1 (1498572776007533 / 1125899906842624)
       = 3296860107216573 / 2251799813685248
   \<and> zoomUpdater lit_0_9 (zoomUpdater lit_1_1 (1498572776007533 / 1125899906842624))
       = 741793524123729 / 562949953421312
   \<and> zoomUpdater (fmul lit_1_1 lit_0_9) (1498572776007533 / 1125899906842624)
       = 5934348192989831 / 4503599627370496"
  by (simp add: zoom_in_3 zoomUpdater_def lit_0_9_eq lit_1_1_eq double_eval)

text \<open>
  The error of one rounding is at most \<open>2^-53\<close> of the value, and two roundings in
  either order stay within \<open>2^-50\<close> of each other, relative to the exact product.
\<close>

lemma roundTiesToEven_error: "\<bar>of_int (roundTiesToEven y) - y\<bar> \<le> 1 / 2"
proof -
  have "of_int \<lfloor>y\<rfloor> \<le> y" "y < of_int \<lfloor>y\<rfloor> + 1" by linarith+
  then show ?thesis
    unfolding roundTiesToEven_def Let_def by (auto simp: abs_le_iff)
qed

lemma round_double_error: "\<bar>round_double x - x\<bar> \<le> \<bar>x\<bar> / 2 ^ 53"
proof (cases "x = 0")
  case True
  then show ?thesis by (simp add: round_double_def)
next
  case False
  define k where "k = \<lfloor>log 2 \<bar>x\<bar>\<rfloor>"
  define p :: real where "p = 2 powr of_int (k - 52)"
  have pos: "0 < p" by (simp add: p_def)
  have "2 powr of_int k \<le> \<bar>x\<bar>"
    using False floor_log_eq_powr_iff [of "\<bar>x\<bar>" 2 k] by (simp add: k_def)
  moreover have "2 powr of_int k = p * 2 ^ 52"
    by (simp add: p_def powr_diff)
  ultimately have low: "p * 2 ^ 52 \<le> \<bar>x\<bar>" by simp
  have rd: "round_double x = of_int (roundTiesToEven (x / p)) * p"
    using False by (simp add: round_double_def Let_def k_def p_def)
  have "round_double x - x = (of_int (roundTiesToEven (x / p)) - x / p) * p"
    using pos by (simp add: rd algebra_simps)
  then have "\<bar>round_double x - x\<bar> = \<bar>of_int (roundTiesToEven (x / p)) - x / p\<bar> * p"
    using pos by (simp add: abs_mult)
  also have "\<dots> \<le> (1 / 2) * p"
    using roundTiesToEven_error [of "x / p"] by (rule mult_right_mono) (simp add: pos less_imp_le)
  also have "\<dots> \<le> \<bar>x\<bar> / 2 ^ 53"
    using low by simp
  finally show ?thesis .
qed

lemma fmul_error: "\<bar>fmul a b - a * b\<bar> \<le> \<bar>a * b\<bar> / 2 ^ 53"
  unfolding fmul_def by (rule round_double_error)

lemma fmul_chain:
  fixes e :: real
  defines "e \<equiv> 1 / 2 ^ 53"
  assumes "\<bar>a - u\<bar> \<le> \<bar>u\<bar> * e"
  shows "\<bar>fmul a f - u * f\<bar> \<le> \<bar>u * f\<bar> * (2 * e + e * e)"
proof -
  have e0: "0 \<le> e" by (simp add: e_def)
  have 1: "\<bar>fmul a f - a * f\<bar> \<le> \<bar>a\<bar> * \<bar>f\<bar> * e"
    using fmul_error [of a f] by (simp add: e_def abs_mult)
  have "\<bar>a\<bar> \<le> \<bar>u\<bar> + \<bar>u\<bar> * e" using assms(2) by linarith
  then have "\<bar>a\<bar> * \<bar>f\<bar> \<le> (\<bar>u\<bar> + \<bar>u\<bar> * e) * \<bar>f\<bar>"
    by (rule mult_right_mono) simp
  then have "\<bar>a\<bar> * \<bar>f\<bar> * e \<le> (\<bar>u\<bar> + \<bar>u\<bar> * e) * \<bar>f\<bar> * e"
    using e0 by (rule mult_right_mono)
  with 1 have 2: "\<bar>fmul a f - a * f\<bar> \<le> (\<bar>u\<bar> + \<bar>u\<bar> * e) * \<bar>f\<bar> * e" by linarith
  have "\<bar>a * f - u * f\<bar> = \<bar>a - u\<bar> * \<bar>f\<bar>"
    by (simp add: abs_mult left_diff_distrib [symmetric])
  also have "\<dots> \<le> \<bar>u\<bar> * e * \<bar>f\<bar>"
    using assms(2) by (rule mult_right_mono) simp
  finally have 3: "\<bar>a * f - u * f\<bar> \<le> \<bar>u\<bar> * e * \<bar>f\<bar>" .
  have "\<bar>fmul a f - u * f\<bar> \<le> \<bar>fmul a f - a * f\<bar> + \<bar>a * f - u * f\<bar>" by linarith
  also have "\<dots> \<le> (\<bar>u\<bar> + \<bar>u\<bar> * e) * \<bar>f\<bar> * e + \<bar>u\<bar> * e * \<bar>f\<bar>"
    using 2 3 by linarith
  also have "\<dots> = \<bar>u * f\<bar> * (2 * e + e * e)"
    by (simp add: abs_mult algebra_simps)
  finally show ?thesis .
qed

lemma two_products_close:
  "\<bar>fmul (fmul z f1) f2 - fmul z (fmul f1 f2)\<bar> \<le> \<bar>z * f1 * f2\<bar> / 2 ^ 50"
proof -
  define e :: real where "e = 1 / 2 ^ 53"
  define P where "P = \<bar>z * f1 * f2\<bar>"
  have P0: "0 \<le> P" by (simp add: P_def)
  have "\<bar>fmul z f1 - z * f1\<bar> \<le> \<bar>z * f1\<bar> * e"
    using fmul_error [of z f1] by (simp add: e_def)
  then have L: "\<bar>fmul (fmul z f1) f2 - z * f1 * f2\<bar> \<le> P * (2 * e + e * e)"
    unfolding e_def P_def by (rule fmul_chain)
  have "\<bar>fmul f1 f2 - f1 * f2\<bar> \<le> \<bar>f1 * f2\<bar> * e"
    using fmul_error [of f1 f2] by (simp add: e_def)
  then have "\<bar>fmul (fmul f1 f2) z - f1 * f2 * z\<bar> \<le> \<bar>f1 * f2 * z\<bar> * (2 * e + e * e)"
    unfolding e_def by (rule fmul_chain)
  then have R: "\<bar>fmul z (fmul f1 f2) - z * f1 * f2\<bar> \<le> P * (2 * e + e * e)"
    by (simp add: fmul_def P_def mult.commute mult.left_commute)
  have "2 * (2 * e + e * e) \<le> 1 / 2 ^ 50" by (simp add: e_def)
  then have "P * (2 * (2 * e + e * e)) \<le> P * (1 / 2 ^ 50)"
    using P0 by (rule mult_left_mono)
  moreover have "\<bar>fmul (fmul z f1) f2 - fmul z (fmul f1 f2)\<bar> \<le> P * (2 * (2 * e + e * e))"
    using L R by (simp add: algebra_simps) 
  ultimately show ?thesis by (simp add: P_def)
qed

lemma clamp_lipschitz:
  fixes a b :: real
  shows "\<bar>max (1 / 2) (min 3 a) - max (1 / 2) (min 3 b)\<bar> \<le> \<bar>a - b\<bar>"
  by (auto simp: max_def min_def abs_le_iff)


lemma zoomUpdater_range: "1 / 2 \<le> zoomUpdater f z \<and> zoomUpdater f z \<le> 3"
  by (simp add: zoomUpdater_def)

text \<open>
  Claim C6, amended. Whenever the intermediate value \<open>z * f1\<close>, as the code computes
  it, lies in \<open>[0.5, 3]\<close>: zooming by \<open>f1\<close> and then by \<open>f2\<close> gives the clamp of
  the product \<open>(z * f1) * f2\<close> taken from left to right in double arithmetic; that
  differs from the zoom of one step by \<open>f1 * f2\<close> by at most \<open>2^-50\<close> times the
  exact product; and the two are equal when the double products \<open>(z * f1) * f2\<close> and
  \<open>z * (f1 * f2)\<close> are.
\<close>

theorem zoom_composition:
  assumes "1 / 2 \<le> fmul z f1" "fmul z f1 \<le> 3"
  shows "zoomUpdater f2 (zoomUpdater f1 z) = max (1 / 2) (min 3 (fmul (fmul z f1) f2))
         \<and> \<bar>zoomUpdater f2 (zoomUpdater f1 z) - zoomUpdater (fmul f1 f2) z\<bar>
             \<le> \<bar>z * f1 * f2\<bar> / 2 ^ 50
         \<and> (fmul (fmul z f1) f2 = fmul z (fmul f1 f2)
              \<longrightarrow> zoomUpdater f2 (zoomUpdater f1 z) = zoomUpdater (fmul f1 f2) z)"
proof -
  have inner: "zoomUpdater f1 z = fmul z f1"
    using assms by (simp add: zoomUpdater_def)
  have two: "zoomUpdater f2 (zoomUpdater f1 z) = max (1 / 2) (min 3 (fmul (fmul z f1) f2))"
    by (subst inner) (simp add: zoomUpdater_def)
  have one: "zoomUpdater (fmul f1 f2) z = max (1 / 2) (min 3 (fmul z (fmul f1 f2)))"
    by (simp add: zoomUpdater_def)
  have "\<bar>zoomUpdater f2 (zoomUpdater f1 z) - zoomUpdater (fmul f1 f2) z\<bar>
        \<le> \<bar>fmul (fmul z f1) f2 - fmul z (fmul f1 f2)\<bar>"
    unfolding two one by (rule clamp_lipschitz)
  also have "\<dots> \<le> \<bar>z * f1 * f2\<bar> / 2 ^ 50"
    by (rule two_products_close)
  finally have close: "\<bar>zoomUpdater f2 (zoomUpdater f1 z) - zoomUpdater (fmul f1 f2) z\<bar>
        \<le> \<bar>z * f1 * f2\<bar> / 2 ^ 50" .
  have "fmul (fmul z f1) f2 = fmul z (fmul f1 f2)
        \<longrightarrow> zoomUpdater f2 (zoomUpdater f1 z) = zoomUpdater (fmul f1 f2) z"
    by (simp add: two one)
  with two close show ?thesis by blast
qed

theorem zoom_composition_witness:
  "1 / 2 \<le> fmul 1 lit_1_1 \<and> fmul 1 lit_1_1 \<le> 3
   \<and> fmul (fmul 1 lit_1_1) lit_0_9 = fmul 1 (fmul lit_1_1 lit_0_9)
   \<and> zoomUpdater lit_0_9 (zoomUpdater lit_1_1 1) = zoomUpdater (fmul lit_1_1 lit_0_9) 1
   \<and> zoomUpdater lit_0_9 (zoomUpdater lit_1_1 1) = 8917127262193583 / 9007199254740992"
proof -
  have a: "fmul 1 lit_1_1 = 2476979795053773 / 2251799813685248"
    by (simp add: lit_1_1_eq double_eval)
  have b: "fmul lit_1_1 lit_0_9 = 8917127262193583 / 9007199254740992"
    by (simp add: lit_0_9_eq lit_1_1_eq double_eval)
  have c: "fmul (fmul 1 lit_1_1) lit_0_9 = 8917127262193583 / 9007199254740992"
    by (simp add: lit_0_9_eq lit_1_1_eq double_eval)
  have d: "fmul 1 (fmul lit_1_1 lit_0_9) = 8917127262193583 / 9007199254740992"
    by (simp add: lit_0_9_eq lit_1_1_eq double_eval)
  have h1: "1 / 2 \<le> fmul 1 lit_1_1" and h2: "fmul 1 lit_1_1 \<le> 3"
    by (simp_all add: a)
  have h3: "fmul (fmul 1 lit_1_1) lit_0_9 = fmul 1 (fmul lit_1_1 lit_0_9)"
    by (simp add: c d)
  show ?thesis
    using zoom_composition [OF h1 h2, of lit_0_9] h1 h2 h3
    by (simp add: c)
qed

subsection \<open>Loading failure\<close>

text \<open>
  Claim C8. When the fetch resolves with a response whose status is not a success
  (\<open>response.ok\<close> is false, as for 404), \<open>loadCountryData\<close> ends in a state that
  carries the error message and is no longer loading; the countries are not set (they
  are what they were, the empty list when the component has just been mounted), and
  the component renders the error placeholder, not the visualization.
\<close>

theorem load_failure:
  assumes "\<not> resp_ok response"
  shows "error (loadCountryData (Inr response) st)
           = Some ''Failed to load country data. Please try again.''
         \<and> \<not> isLoading (loadCountryData (Inr response) st)
         \<and> countries (loadCountryData (Inr response) st) = countries st
         \<and> render (loadCountryData (Inr response) st)
           = ErrorPlaceholder ''Failed to load country data. Please try again.''
         \<and> countries (loadCountryData (Inr response) P2D_initial) = []"
  using assms
  by (simp add: loadCountryData_def loadCountryData_try_def render_def truthy_def Let_def
      P2D_initial_def)

theorem load_failure_witness:
  "\<not> resp_ok not_found
   \<and> resp_status not_found = 404
   \<and> render (loadCountryData (Inr not_found) P2D_initial)
       = ErrorPlaceholder ''Failed to load country data. Please try again.''
   \<and> countries (loadCountryData (Inr not_found) P2D_initial) = []"
  using load_failure [of not_found P2D_initial]
  by (simp add: not_found_def P2D_initial_def)

subsection \<open>Capability detection\<close>

text \<open>
  Claim C7. \<open>checkWebGPU\<close> never lets an exception out and always ends the loading
  state. Whenever the probe is unavailable (no \<open>gpu\<close> key, a falsy \<open>gpu\<close>, no
  adapter) or throws or rejects, \<open>isWebGPU\<close> is set to false, and under that tier the
  sphere is built with 64 by 32 segments; the advanced tier uses 128 by 64.
\<close>

theorem checkWebGPU_never_fails:
  "snd (checkWebGPU env st) = None
   \<and> \<not> WG_isLoading (fst (checkWebGPU env st))
   \<and> (probe_fails (probe env) \<longrightarrow>
        isWebGPU (fst (checkWebGPU env st)) = Some False
        \<and> \<not> tier (fst (checkWebGPU env st))
        \<and> sphereArgs (tier (fst (checkWebGPU env st))) = (1, 64, 32))
   \<and> sphereArgs True = (1, 128, 64)"
  by (cases "probe env")
     (auto simp: checkWebGPU_def checkWebGPU_try_def isWebGPUSupported_def probe_fails_def
      tier_def sphereArgs_def Let_def split: option.splits)

theorem checkWebGPU_never_fails_witness:
  "probe_fails (RequestAdapterRejects ''OperationError'')
   \<and> checkWebGPU \<lparr>probe = RequestAdapterRejects ''OperationError'', measureFPS_throws = None\<rparr>
        WG_initial
      = (\<lparr>isWebGPU = Some False, WG_isLoading = False, fpsMonitor = False\<rparr>, None)
   \<and> sphereArgs (tier (fst (checkWebGPU
        \<lparr>probe = RequestAdapterRejects ''OperationError'', measureFPS_throws = None\<rparr>
        WG_initial))) = (1, 64, 32)"
  using checkWebGPU_never_fails
    [of "\<lparr>probe = RequestAdapterRejects ''OperationError'', measureFPS_throws = None\<rparr>" WG_initial]
  by (simp add: probe_fails_def checkWebGPU_def checkWebGPU_try_def isWebGPUSupported_def
      WG_initial_def tier_def sphereArgs_def)

subsection \<open>Displaced geometry\<close>

text \<open>
  The radius of a displaced vertex. \<open>normalize\<close> brings every vertex that is not the
  origin to length 1, whatever the radius of the sphere it came from, and the octaves
  are small enough for the scale factor to be positive.
\<close>

lemma vlength_multiplyScalar: "vlength (multiplyScalar s v) = \<bar>s\<bar> * vlength v"
proof (cases v)
  case (fields x y z)
  have "x * s * (x * s) + y * s * (y * s) + z * s * (z * s) = (s * s) * (x * x + y * y + z * z)"
    by (simp add: algebra_simps)
  then show ?thesis
    by (simp add: fields real_sqrt_mult)
qed

lemma vlength_nonneg: "0 \<le> vlength v"
  by (cases v) simp

lemma vlength_normalize: "vlength v \<noteq> 0 \<Longrightarrow> vlength (normalize v) = 1"
  using vlength_nonneg [of v]
  by (simp add: normalize_def vlength_multiplyScalar)

lemma vlength_normalize_zero: "vlength v = 0 \<Longrightarrow> vlength (normalize v) = 0"
  by (simp add: normalize_def vlength_multiplyScalar)

lemma octave_bound: "\<bar>sin (a :: real) * cos (b :: real) * sin (c :: real)\<bar> \<le> 1"
proof -
  have "\<bar>sin a\<bar> * \<bar>cos b\<bar> \<le> 1 * 1"
    by (intro mult_mono) simp_all
  then have "\<bar>sin a\<bar> * \<bar>cos b\<bar> * \<bar>sin c\<bar> \<le> 1 * 1"
    by (intro mult_mono) simp_all
  then show ?thesis by (simp add: abs_mult)
qed

lemma WG_sum_bound:
  fixes n1 n2 n3 :: real
  assumes "\<bar>n1\<bar> \<le> 1" "\<bar>n2\<bar> \<le> 1" "\<bar>n3\<bar> \<le> 1"
  shows "\<bar>(n1 + n2 * (1 / 2) + n3 * 2) * (3 / 100)\<bar> \<le> 105 / 1000"
proof -
  define a where "a = n1 + n2 * (1 / 2) + n3 * 2"
  have a: "\<bar>a\<bar> \<le> 7 / 2"
    using assms unfolding a_def by linarith
  have "\<bar>a * (3 / 100)\<bar> = \<bar>a\<bar> * (3 / 100)"
    by (simp add: abs_mult)
  with a have "\<bar>a * (3 / 100)\<bar> \<le> 105 / 1000"
    by linarith
  then show ?thesis unfolding a_def .
qed

lemma LP_sum_bound:
  fixes n1 n2 :: real
  assumes "\<bar>n1\<bar> \<le> 1" "\<bar>n2\<bar> \<le> 1"
  shows "\<bar>n1 * (8 / 100) + n2 * (12 / 100)\<bar> \<le> 2 / 10"
  using assms by linarith

lemma WG_displacement_bound: "\<bar>WG_displacement v\<bar> \<le> 105 / 1000"
proof (cases v)
  case (fields x y z)
  have 1: "\<bar>sin (x * 8) * cos (y * 8) * sin (z * 8)\<bar> \<le> 1" by (rule octave_bound)
  have 2: "\<bar>sin (x * 16) * cos (y * 16) * sin (z * 16)\<bar> \<le> 1" by (rule octave_bound)
  have 3: "\<bar>sin (x * 4) * cos (y * 4) * sin (z * 4)\<bar> \<le> 1" by (rule octave_bound)
  show ?thesis
    using WG_sum_bound [OF 1 2 3] by (simp only: fields WG_displacement.simps Let_def)
qed

lemma WG_displaced_radius:
  assumes "vlength v \<noteq> 0"
  shows "vlength (WG_displace v) = 1 + WG_displacement v"
proof -
  have "0 \<le> 1 + WG_displacement v"
    using WG_displacement_bound [of v] by linarith
  then show ?thesis
    using assms by (simp add: WG_displace_def vlength_multiplyScalar vlength_normalize)
qed

lemma large_bound: "\<bar>sin (a :: real) * sin (b :: real)\<bar> \<le> 1"
proof -
  have "\<bar>sin a\<bar> * \<bar>sin b\<bar> \<le> 1 * 1"
    by (intro mult_mono) simp_all
  then show ?thesis by (simp add: abs_mult)
qed

lemma LP_displacements_bound:
  "\<bar>fst (LP_displacements v) + snd (LP_displacements v)\<bar> \<le> 2 / 10"
proof (cases v)
  case (fields x y z)
  have 1: "\<bar>sin (x * 4) * cos (y * 4) * sin (z * 4)\<bar> \<le> 1" by (rule octave_bound)
  have 2: "\<bar>sin (x * 2) * sin (y * 2)\<bar> \<le> 1" by (rule large_bound)
  show ?thesis
    using LP_sum_bound [OF 1 2] by (simp only: fields LP_displacements.simps Let_def fst_conv snd_conv)
qed

lemma LP_displaced_radius:
  assumes "vlength v \<noteq> 0"
  shows "vlength (LP_displace v) = 1 + fst (LP_displacements v) + snd (LP_displacements v)"
proof -
  have "0 \<le> 1 + fst (LP_displacements v) + snd (LP_displacements v)"
    using LP_displacements_bound [of v] by linarith
  then show ?thesis
    using assms
    by (simp add: LP_displace_def vlength_multiplyScalar vlength_normalize split_beta)
qed

lemma vlength_axis: "vlength (0, y, 0) = \<bar>y\<bar>"
  by simp

text \<open>
  The two loops work vertex by vertex: the position and the colour written at an index
  are computed from the coordinates read at that index alone.
\<close>

lemma WG_geometry_nth:
  assumes "i < length positions"
  shows "fst (WG_geometry positions) ! i = WG_displace (positions ! i)"
    and "snd (WG_geometry positions) ! i = WG_color (WG_displace (positions ! i))"
  using assms by (simp_all add: WG_geometry_def Let_def)

text \<open>
  Claim C2, as stated: every vertex whose absolute height component exceeds the
  high-latitude threshold gets the snow colour, also at or below the ocean threshold. It
  fails at the pole of the sphere: the vertex \<open>(0, 1, 0)\<close> is not displaced, its
  elevation is 0, and it is coloured as ocean.
\<close>

theorem pole_is_ocean:
  "WG_displace (0, 1, 0) = (0, 1, 0)
   \<and> \<bar>1 :: real\<bar> > 8 / 10
   \<and> WG_color (WG_displace (0, 1, 0)) = ocean
   \<and> WG_color (WG_displace (0, 1, 0)) \<noteq> snow"
  by (simp add: WG_displace_def normalize_def ocean_def snow_def)

text \<open>
  Claim C2, amended. A vertex whose absolute height component exceeds 0.8 gets the
  snow colour when its elevation after displacement is above 0.01; a vertex whose
  elevation is at or below 0.01 gets the ocean colour, whatever its latitude.
\<close>

theorem snow_on_high_land:
  "(\<bar>y\<bar> > 8 / 10 \<and> vlength (x, y, z) - 1 > 1 / 100 \<longrightarrow> WG_color (x, y, z) = snow)
   \<and> (vlength (x, y, z) - 1 \<le> 1 / 100 \<longrightarrow> WG_color (x, y, z) = ocean)"
  by (simp add: snow_def ocean_def Let_def)

theorem snow_on_high_land_witness:
  "\<bar>21 / 20 :: real\<bar> > 8 / 10 \<and> vlength (0, 21 / 20, 0) - 1 > 1 / 100
   \<and> WG_color (0, 21 / 20, 0) = snow
   \<and> vlength (0, 1, 0) - 1 \<le> 1 / 100
   \<and> WG_color (0, 1, 0) = ocean"
  using snow_on_high_land [of "21 / 20" 0 0] snow_on_high_land [of 1 0 0]
  by (simp only: vlength_axis) simp

text \<open>
  Claim C3, at the pole \<open>(0, 2, 0)\<close> of the low-poly sphere of base radius 2: the
  octaves are 0 there, so the claim gives the radius \<open>2 * (1 + 0) = 2\<close>; the loop of
  LowPolyGlobe.tsx moves the vertex to \<open>(0, 1, 0)\<close>, at radius 1.
\<close>

theorem lowpoly_pole_radius:
  "vlength (0, LP_baseRadius, 0) = 2
   \<and> LP_displacements (0, LP_baseRadius, 0) = (0, 0)
   \<and> LP_displace (0, LP_baseRadius, 0) = (0, 1, 0)
   \<and> vlength (LP_displace (0, LP_baseRadius, 0)) = 1
   \<and> LP_baseRadius * (1 + (fst (LP_displacements (0, LP_baseRadius, 0))
                           + snd (LP_displacements (0, LP_baseRadius, 0)))) = 2"
  by (simp add: LP_baseRadius_def LP_displace_def normalize_def)

end
